theory Spec2Isabelle
  imports Main
begin

section \<open>The configured request client (api.js)\<close>

subsection \<open>Values, configuration and the environment\<close>

text \<open>
  A decoded JSON value, as carried by \<open>response.data\<close> and by the request body.
  Numbers are restricted to integers; no property below depends on fractions.
\<close>

datatype json =
    JNull
  | JBool bool
  | JNum int
  | JStr string
  | JArr "json list"
  | JObj "(string \<times> json) list"

text \<open>JavaScript truthiness of a decoded value, as used by the operator \<open>||\<close>.\<close>

fun truthy :: "json \<Rightarrow> bool" where
  "truthy JNull = False"
| "truthy (JBool b) = b"
| "truthy (JNum n) = (n \<noteq> 0)"
| "truthy (JStr s) = (s \<noteq> [])"
| "truthy (JArr xs) = True"
| "truthy (JObj kvs) = True"

text \<open>
  \<open>process.env\<close>: a variable is either unset or a string. \<open>PORT\<close> is taken as
  already read as a port number. (For a value that is no port number \<open>app.listen\<close>
  throws before it attempts any bind; such values are outside this model.)
\<close>

record env =
  API_BASE_URL :: "string option"
  API_KEY :: "string option"
  env_PORT :: "nat option"

datatype http_method = GET | POST | PUT | PATCH | DELETE

text \<open>The request configuration that axios hands to its adapter.\<close>

record config =
  url :: string
  http_method :: http_method
  baseURL :: "string option"
  timeout :: nat
  headers :: "string \<rightharpoonup> string"
  params :: "(string \<times> string) list"
  body :: "json option"

record response =
  status :: nat
  data :: json

text \<open>
  The error object of a rejected call: \<open>error.message\<close> and \<open>error.response\<close>,
  the latter absent when no response was received (network failure, timeout).
\<close>

record axios_error =
  message :: string
  response :: "response option"

text \<open>
  What the adapter of the HTTP library does with a request: it delivers a response, or it
  fails with an error. The adapter is a parameter of every operation below.
\<close>

datatype adapter_result = Responded response | Failed axios_error

text \<open>One call of \<open>console.error('API Error:', status, detail)\<close>.\<close>

record log_entry =
  label :: string
  log_status :: "nat option"
  detail :: json

text \<open>
  The observable effects of the client: the requests handed to the adapter, in order, and
  the lines written to the error channel.
\<close>

record io =
  sent :: "config list"
  stderr :: "log_entry list"

subsection \<open>Decimal rendering of a number in a string\<close>

fun decimal :: "nat \<Rightarrow> string" where
  "decimal n =
     (if n < 10 then [''0123456789'' ! n]
      else decimal (n div 10) @ [''0123456789'' ! (n mod 10)])"

declare decimal.simps [simp del]

subsection \<open>The axios instance and its interceptors\<close>

text \<open>
  \<open>axios.create({baseURL, timeout: 30000, headers: {'Content-Type': 'application/json'}})\<close>:
  the defaults every call of the instance starts from.
\<close>

definition api :: "env \<Rightarrow> config" where
  "api e =
     \<lparr> url = [], http_method = GET, baseURL = API_BASE_URL e, timeout = 30000,
       headers = [''Content-Type'' \<mapsto> ''application/json''], params = [], body = None \<rparr>"

text \<open>
  The request interceptor: \<open>if (process.env.API_KEY)\<close> holds for a set, non-empty
  string; then the header is overwritten.
\<close>

definition request_interceptor :: "env \<Rightarrow> config \<Rightarrow> config" where
  "request_interceptor e c =
     (case API_KEY e of
        None \<Rightarrow> c
      | Some k \<Rightarrow>
          if k \<noteq> [] then c\<lparr>headers := (headers c)(''Authorization'' \<mapsto> ''Bearer '' @ k)\<rparr>
          else c)"

text \<open>
  The library's default \<open>validateStatus\<close>, which \<open>axios.create\<close> in api.js does not
  override, and its \<open>settle\<close>: a response whose status is not accepted becomes a
  rejection that carries the response.
\<close>

definition validateStatus :: "nat \<Rightarrow> bool" where
  "validateStatus s = (200 \<le> s \<and> s < 300)"

definition status_error :: "response \<Rightarrow> axios_error" where
  "status_error r =
     \<lparr> message = ''Request failed with status code '' @ decimal (status r),
       response = Some r \<rparr>"

definition settle :: "response \<Rightarrow> axios_error + response" where
  "settle r =
     (if status r = 0 \<or> validateStatus (status r) then Inr r
      else Inl (status_error r))"

text \<open>
  The response interceptor. Its first handler returns the response unchanged; its second
  handler logs \<open>error.response?.status\<close> and \<open>error.response?.data || error.message\<close>
  and throws the error again: the result is \<open>Inl\<close>, the raised error.
\<close>

definition response_fulfilled :: "response \<Rightarrow> response" where
  "response_fulfilled r = r"

definition error_detail :: "axios_error \<Rightarrow> json" where
  "error_detail err =
     (case response err of
        None \<Rightarrow> JStr (message err)
      | Some r \<Rightarrow> if truthy (data r) then data r else JStr (message err))"

definition api_error_line :: "axios_error \<Rightarrow> log_entry" where
  "api_error_line err =
     \<lparr> label = ''API Error:'', log_status = map_option status (response err),
       detail = error_detail err \<rparr>"

definition response_rejected :: "axios_error \<Rightarrow> io \<Rightarrow> (axios_error + response) \<times> io" where
  "response_rejected err s = (Inl err, s\<lparr>stderr := stderr s @ [api_error_line err]\<rparr>)"

text \<open>
  Dispatching a request: the adapter's failure is the rejection; a response is settled.
  \<open>Inl\<close> is a rejected promise (an exception at the \<open>await\<close>), \<open>Inr\<close> a fulfilled one.
\<close>

definition dispatchRequest :: "(config \<Rightarrow> adapter_result) \<Rightarrow> config \<Rightarrow> axios_error + response" where
  "dispatchRequest adapter c =
     (case adapter c of
        Failed err \<Rightarrow> Inl err
      | Responded r \<Rightarrow> settle r)"

text \<open>
  One call through the instance: request interceptor, dispatch, response interceptor.
\<close>

definition api_request ::
  "env \<Rightarrow> (config \<Rightarrow> adapter_result) \<Rightarrow> config \<Rightarrow> io \<Rightarrow> (axios_error + response) \<times> io" where
  "api_request e adapter c s =
     (let c' = request_interceptor e c;
          s' = s\<lparr>sent := sent s @ [c']\<rparr>
      in case dispatchRequest adapter c' of
           Inl err \<Rightarrow> response_rejected err s'
         | Inr r \<Rightarrow> (Inr (response_fulfilled r), s'))"

subsection \<open>The exported request templates\<close>

text \<open>
  \<open>const response = await api.get(...); return response.data;\<close>: a rejection passes
  through the \<open>await\<close> to the caller, a response is reduced to its \<open>data\<close>.
\<close>

definition return_data :: "(axios_error + response) \<times> io \<Rightarrow> (axios_error + json) \<times> io" where
  "return_data p =
     (case p of
        (Inl err, s) \<Rightarrow> (Inl err, s)
      | (Inr r, s) \<Rightarrow> (Inr (data r), s))"

text \<open>A parameter with default \<open>{}\<close>: the default applies when the argument is omitted.\<close>

definition get ::
  "env \<Rightarrow> (config \<Rightarrow> adapter_result) \<Rightarrow> string \<Rightarrow> (string \<times> string) list option \<Rightarrow> io
     \<Rightarrow> (axios_error + json) \<times> io" where
  "get e adapter endpoint ps s =
     return_data (api_request e adapter
       ((api e)\<lparr>http_method := GET, url := endpoint,
                params := (case ps of None \<Rightarrow> [] | Some p \<Rightarrow> p)\<rparr>) s)"

definition post ::
  "env \<Rightarrow> (config \<Rightarrow> adapter_result) \<Rightarrow> string \<Rightarrow> json option \<Rightarrow> io
     \<Rightarrow> (axios_error + json) \<times> io" where
  "post e adapter endpoint d s =
     return_data (api_request e adapter
       ((api e)\<lparr>http_method := POST, url := endpoint,
                body := Some (case d of None \<Rightarrow> JObj [] | Some v \<Rightarrow> v)\<rparr>) s)"

definition put ::
  "env \<Rightarrow> (config \<Rightarrow> adapter_result) \<Rightarrow> string \<Rightarrow> json option \<Rightarrow> io
     \<Rightarrow> (axios_error + json) \<times> io" where
  "put e adapter endpoint d s =
     return_data (api_request e adapter
       ((api e)\<lparr>http_method := PUT, url := endpoint,
                body := Some (case d of None \<Rightarrow> JObj [] | Some v \<Rightarrow> v)\<rparr>) s)"

definition patch ::
  "env \<Rightarrow> (config \<Rightarrow> adapter_result) \<Rightarrow> string \<Rightarrow> json option \<Rightarrow> io
     \<Rightarrow> (axios_error + json) \<times> io" where
  "patch e adapter endpoint d s =
     return_data (api_request e adapter
       ((api e)\<lparr>http_method := PATCH, url := endpoint,
                body := Some (case d of None \<Rightarrow> JObj [] | Some v \<Rightarrow> v)\<rparr>) s)"

definition del ::
  "env \<Rightarrow> (config \<Rightarrow> adapter_result) \<Rightarrow> string \<Rightarrow> io \<Rightarrow> (axios_error + json) \<times> io" where
  "del e adapter endpoint s =
     return_data (api_request e adapter
       ((api e)\<lparr>http_method := DELETE, url := endpoint\<rparr>) s)"

text \<open>The request that a call has handed to the adapter: the last one sent.\<close>

definition outbound :: "(axios_error + json) \<times> io \<Rightarrow> config" where
  "outbound p = last (sent (snd p))"

subsection \<open>Concrete environments and stubbed adapters\<close>

definition env_with_key :: env where
  "env_with_key =
     \<lparr> API_BASE_URL = Some ''https://api.example.test'', API_KEY = Some ''s3cret'',
       env_PORT = None \<rparr>"

definition env_without_key :: env where
  "env_without_key =
     \<lparr> API_BASE_URL = Some ''https://api.example.test'', API_KEY = None, env_PORT = None \<rparr>"

definition io0 :: io where
  "io0 = \<lparr> sent = [], stderr = [] \<rparr>"

definition not_found :: response where
  "not_found = \<lparr> status = 404, data = JObj [(''error'', JStr ''not found'')] \<rparr>"

definition stub_404 :: "config \<Rightarrow> adapter_result" where
  "stub_404 c = Responded not_found"

definition stub_offline :: "config \<Rightarrow> adapter_result" where
  "stub_offline c = Failed \<lparr> message = ''Network Error'', response = None \<rparr>"

definition stub_200 :: "config \<Rightarrow> adapter_result" where
  "stub_200 c = Responded \<lparr> status = 200, data = JObj [(''id'', JNum 7)] \<rparr>"

definition stub_201 :: "config \<Rightarrow> adapter_result" where
  "stub_201 c = Responded \<lparr> status = 201, data = JObj [(''id'', JNum 7)] \<rparr>"

section \<open>The local listener and its controller (server.js, cli/handlers/server.js)\<close>

subsection \<open>The platform: sockets and the console\<close>

type_synonym handle = nat

datatype socket_op = Listen handle nat | Close handle

text \<open>
  What the process and its host look like from the controller: the listeners of this
  process that are bound (handle and port), the ports held by other processes, the
  handle the next \<open>http.Server\<close> object gets, every socket operation issued so far,
  and the lines printed by \<open>console.log\<close>. Whether the web framework invokes the
  callback of \<open>app.listen\<close> when the bind fails depends on its version, so it is a
  parameter: \<open>listen_cb_on_error\<close>.
\<close>

record world =
  listening :: "(handle \<times> nat) list"
  foreign :: "nat list"
  next_handle :: handle
  ops :: "socket_op list"
  console :: "string list"
  listen_cb_on_error :: bool

text \<open>\<open>const PORT = process.env.PORT || 3000\<close>\<close>

definition PORT :: "env \<Rightarrow> nat" where
  "PORT e = (case env_PORT e of None \<Rightarrow> 3000 | Some p \<Rightarrow> p)"

text \<open>
  \<open>app.listen(port, callback)\<close> creates a new server object and returns it at once.
  The bind succeeds when nobody holds the port; then the callback runs. When the port is
  held, the bind fails and the server emits the event \<open>error\<close> (\<open>EADDRINUSE\<close>); the
  callback then runs only if the framework has registered it for that event. The result
  is the server and whether the callback has run.
\<close>

definition app_listen :: "nat \<Rightarrow> world \<Rightarrow> (handle \<times> bool) \<times> world" where
  "app_listen port w =
     (let h = next_handle w;
          w' = w\<lparr>next_handle := Suc h, ops := ops w @ [Listen h port]\<rparr>
      in if port \<in> set (foreign w) \<or> port \<in> set (map snd (listening w))
         then ((h, listen_cb_on_error w), w')
         else ((h, True), w'\<lparr>listening := listening w @ [(h, port)]\<rparr>))"

text \<open>
  \<open>server.close(callback)\<close> releases the port if the server holds one; the callback
  runs in either case (with an error argument, which the caller ignores, when the server
  was not open). Connections in flight are not modelled.
\<close>

definition server_close :: "handle \<Rightarrow> world \<Rightarrow> world" where
  "server_close h w =
     w\<lparr>listening := filter (\<lambda>l. fst l \<noteq> h) (listening w), ops := ops w @ [Close h]\<rparr>"

definition console_log :: "string \<Rightarrow> world \<Rightarrow> world" where
  "console_log line w = w\<lparr>console := console w @ [line]\<rparr>"

subsection \<open>server.js\<close>

text \<open>
  What becomes of an awaited promise: it is resolved with a value, or the process is
  terminated by an uncaught error while the promise is still pending.
\<close>

datatype 'a awaited = Resolved 'a | Uncaught string

text \<open>
  The promise of \<open>startServer\<close> is resolved by the callback of \<open>app.listen\<close> and by
  nothing else. The callback ignores its arguments: it prints and resolves also when the
  framework runs it for a failed bind. \<open>startServer\<close> registers no listener for the
  event \<open>error\<close>; when the bind fails and the callback does not run, the event is
  unhandled, and the runtime throws it as an uncaught error that ends the process.
\<close>

definition startServer :: "env \<Rightarrow> world \<Rightarrow> handle awaited \<times> world" where
  "startServer e w =
     (case app_listen (PORT e) w of
        ((server, True), w') \<Rightarrow>
          (Resolved server, console_log (''Server listening on port '' @ decimal (PORT e)) w')
      | ((server, False), w') \<Rightarrow> (Uncaught ''EADDRINUSE'', w'))"

definition stopServer :: "handle \<Rightarrow> world \<Rightarrow> world" where
  "stopServer server w = console_log ''Server stopped'' (server_close server w)"

subsection \<open>cli/handlers/server.js\<close>

text \<open>The module variable \<open>server\<close> (\<open>null\<close> is \<open>None\<close>) and the platform.\<close>

record state =
  server :: "handle option"
  os :: world

text \<open>
  An \<open>async\<close> handler returns, or the process is terminated by an uncaught error while
  the handler is pending at its \<open>await\<close>. No handler has a \<open>try\<close> or a \<open>catch\<close>.
\<close>

datatype completion = Returned | Crashed string

definition handleStartServer :: "env \<Rightarrow> state \<Rightarrow> completion \<times> state" where
  "handleStartServer e st =
     (case server st of
        Some h \<Rightarrow> (Returned, st\<lparr>os := console_log ''Server is already running'' (os st)\<rparr>)
      | None \<Rightarrow>
          (case startServer e (os st) of
             (Uncaught err, w') \<Rightarrow> (Crashed err, st\<lparr>os := w'\<rparr>)
           | (Resolved h, w') \<Rightarrow> (Returned, st\<lparr>server := Some h, os := w'\<rparr>)))"

definition handleStopServer :: "state \<Rightarrow> completion \<times> state" where
  "handleStopServer st =
     (case server st of
        None \<Rightarrow> (Returned, st\<lparr>os := console_log ''Server is not running'' (os st)\<rparr>)
      | Some h \<Rightarrow> (Returned, st\<lparr>server := None, os := stopServer h (os st)\<rparr>))"

definition cleanup :: "state \<Rightarrow> completion \<times> state" where
  "cleanup st =
     (case server st of
        Some h \<Rightarrow> (Returned, st\<lparr>os := stopServer h (os st)\<rparr>)
      | None \<Rightarrow> (Returned, st))"

definition isServerRunning :: "state \<Rightarrow> bool" where
  "isServerRunning st = (server st \<noteq> None)"

subsection \<open>Sequences of controller operations\<close>

text \<open>
  The state at process start: \<open>let server = null\<close>, nothing bound, nothing printed.
\<close>

definition initial :: "nat list \<Rightarrow> bool \<Rightarrow> state" where
  "initial held cb =
     \<lparr> server = None,
       os = \<lparr> listening = [], foreign = held, next_handle = 0, ops = [], console = [],
              listen_cb_on_error = cb \<rparr> \<rparr>"

datatype command = Start | Stop | Cleanup

fun exec :: "env \<Rightarrow> command \<Rightarrow> state \<Rightarrow> completion \<times> state" where
  "exec e Start st = handleStartServer e st"
| "exec e Stop st = handleStopServer st"
| "exec e Cleanup st = cleanup st"

text \<open>
  Operations are awaited one after the other; once the process is terminated, the later
  ones do not run.
\<close>

fun run :: "env \<Rightarrow> command list \<Rightarrow> state \<Rightarrow> completion \<times> state" where
  "run e [] st = (Returned, st)"
| "run e (c # cs) st =
     (case exec e c st of
        (Returned, st') \<Rightarrow> run e cs st'
      | (Crashed err, st') \<Rightarrow> (Crashed err, st'))"

text \<open>The controller's invariant: a bound listener of this process is the one in \<open>server\<close>.\<close>

definition owned :: "state \<Rightarrow> bool" where
  "owned st =
     (case listening (os st) of
        [] \<Rightarrow> True
      | [l] \<Rightarrow> server st = Some (fst l)
      | _ \<Rightarrow> False)"

section \<open>Properties of the request client\<close>

subsection \<open>Auxiliary facts\<close>

lemmas templates = get_def post_def put_def patch_def del_def

lemma sent_template:
  "sent (snd (return_data (api_request e adapter c s))) = sent s @ [request_interceptor e c]"
  by (simp add: return_data_def api_request_def response_rejected_def Let_def split: sum.splits)

lemma outbound_template:
  "outbound (return_data (api_request e adapter c s)) = request_interceptor e c"
  by (simp add: outbound_def sent_template)

lemma rejected_template:
  assumes "dispatchRequest adapter (outbound (return_data (api_request e adapter c s))) = Inl err"
  shows "fst (return_data (api_request e adapter c s)) = Inl err"
    and "stderr (snd (return_data (api_request e adapter c s))) = stderr s @ [api_error_line err]"
proof -
  from assms have "dispatchRequest adapter (request_interceptor e c) = Inl err"
    by (simp only: outbound_template)
  then show "fst (return_data (api_request e adapter c s)) = Inl err"
    and "stderr (snd (return_data (api_request e adapter c s))) = stderr s @ [api_error_line err]"
    by (simp_all add: return_data_def api_request_def response_rejected_def Let_def)
qed

lemma fulfilled_template:
  assumes "dispatchRequest adapter (outbound (return_data (api_request e adapter c s))) = Inr r"
  shows "fst (return_data (api_request e adapter c s)) = Inr (data r)"
    and "stderr (snd (return_data (api_request e adapter c s))) = stderr s"
proof -
  from assms have "dispatchRequest adapter (request_interceptor e c) = Inr r"
    by (simp only: outbound_template)
  then show "fst (return_data (api_request e adapter c s)) = Inr (data r)"
    and "stderr (snd (return_data (api_request e adapter c s))) = stderr s"
    by (simp_all add: return_data_def api_request_def response_fulfilled_def Let_def)
qed


lemma dispatch_2xx:
  assumes "200 \<le> status r" and "status r < 300" and "adapter c = Responded r"
  shows "dispatchRequest adapter c = Inr r"
  using assms by (simp add: dispatchRequest_def settle_def validateStatus_def)

lemma authorization_interceptor:
  "headers c ''Authorization'' = None \<Longrightarrow>
   headers (request_interceptor e c) ''Authorization'' =
     (case API_KEY e of None \<Rightarrow> None | Some k \<Rightarrow> if k = [] then None else Some (''Bearer '' @ k))"
  by (simp add: request_interceptor_def split: option.splits)

lemma api_no_authorization: "headers (api e) ''Authorization'' = None"
  by (simp add: api_def)

lemma stubs_dispatch:
  "dispatchRequest stub_offline c = Inl \<lparr> message = ''Network Error'', response = None \<rparr>"
  "stub_404 c = Responded not_found"
  "stub_201 c = Responded \<lparr> status = 201, data = JObj [(''id'', JNum 7)] \<rparr>"
  by (simp_all add: dispatchRequest_def stub_offline_def stub_404_def stub_201_def)

subsection \<open>Failed calls\<close>

text \<open>
  Claim C1, as stated, fails. A call that meets a network error does not return a value
  to its caller: \<open>get\<close> ends in \<open>Inl\<close>, the error thrown again by the response
  interceptor.
\<close>

theorem failed_call_raises_counterexample:
  "fst (get env_with_key stub_offline ''/users'' None io0)
     = Inl \<lparr> message = ''Network Error'', response = None \<rparr>"
  by (simp add: get_def return_data_def api_request_def response_rejected_def Let_def
      dispatchRequest_def stub_offline_def)

text \<open>
  Claim C1, amended. For every failed call, that is whenever dispatching the request that
  was sent ends in a rejection \<open>err\<close> (no response, a timeout, a response with a status
  outside 2xx, or any other error of the library), each request template writes exactly
  one line for \<open>err\<close> to the error channel and then raises \<open>err\<close> itself to its caller;
  it does not turn the failure into a returned value.
\<close>

theorem failed_call_logged_then_raised:
  "(dispatchRequest adapter (outbound (get e adapter ep ps s)) = Inl err \<longrightarrow>
      fst (get e adapter ep ps s) = Inl err
    \<and> stderr (snd (get e adapter ep ps s)) = stderr s @ [api_error_line err])
 \<and> (dispatchRequest adapter (outbound (post e adapter ep d s)) = Inl err \<longrightarrow>
      fst (post e adapter ep d s) = Inl err
    \<and> stderr (snd (post e adapter ep d s)) = stderr s @ [api_error_line err])
 \<and> (dispatchRequest adapter (outbound (put e adapter ep d s)) = Inl err \<longrightarrow>
      fst (put e adapter ep d s) = Inl err
    \<and> stderr (snd (put e adapter ep d s)) = stderr s @ [api_error_line err])
 \<and> (dispatchRequest adapter (outbound (patch e adapter ep d s)) = Inl err \<longrightarrow>
      fst (patch e adapter ep d s) = Inl err
    \<and> stderr (snd (patch e adapter ep d s)) = stderr s @ [api_error_line err])
 \<and> (dispatchRequest adapter (outbound (del e adapter ep s)) = Inl err \<longrightarrow>
      fst (del e adapter ep s) = Inl err
    \<and> stderr (snd (del e adapter ep s)) = stderr s @ [api_error_line err])"
  unfolding templates by (intro conjI impI rejected_template; assumption)

text \<open>The amended claim C1 at a network error, for each of the five templates.\<close>

theorem failed_call_logged_then_raised_witness:
  "dispatchRequest stub_offline (outbound (get env_with_key stub_offline ''/users'' None io0))
     = Inl \<lparr> message = ''Network Error'', response = None \<rparr>
 \<and> dispatchRequest stub_offline (outbound (post env_with_key stub_offline ''/users'' None io0))
     = Inl \<lparr> message = ''Network Error'', response = None \<rparr>
 \<and> dispatchRequest stub_offline (outbound (put env_with_key stub_offline ''/users'' None io0))
     = Inl \<lparr> message = ''Network Error'', response = None \<rparr>
 \<and> dispatchRequest stub_offline (outbound (patch env_with_key stub_offline ''/users'' None io0))
     = Inl \<lparr> message = ''Network Error'', response = None \<rparr>
 \<and> dispatchRequest stub_offline (outbound (del env_with_key stub_offline ''/users'' io0))
     = Inl \<lparr> message = ''Network Error'', response = None \<rparr>
 \<and> fst (get env_with_key stub_offline ''/users'' None io0)
     = Inl \<lparr> message = ''Network Error'', response = None \<rparr>
 \<and> stderr (snd (get env_with_key stub_offline ''/users'' None io0))
     = [\<lparr> label = ''API Error:'', log_status = None, detail = JStr ''Network Error'' \<rparr>]
 \<and> fst (del env_with_key stub_offline ''/users'' io0)
     = Inl \<lparr> message = ''Network Error'', response = None \<rparr>
 \<and> stderr (snd (del env_with_key stub_offline ''/users'' io0))
     = [\<lparr> label = ''API Error:'', log_status = None, detail = JStr ''Network Error'' \<rparr>]"
  using failed_call_logged_then_raised [of stub_offline env_with_key "''/users''" None io0
      "\<lparr> message = ''Network Error'', response = None \<rparr>" None]
  by (simp add: stubs_dispatch api_error_line_def error_detail_def io0_def)

subsection \<open>Responses outside 2xx\<close>




subsection \<open>Responses in 2xx\<close>

text \<open>
  Claim C9, as stated, fails. The value returned for a response of status 200 and the
  value returned for a response of status 201 with the same body are equal: the returned
  value is the body and does not hold the status code.
\<close>

theorem success_drops_status_counterexample:
  "fst (get env_with_key stub_200 ''/users/7'' None io0) = Inr (JObj [(''id'', JNum 7)])
 \<and> fst (get env_with_key stub_201 ''/users/7'' None io0) = Inr (JObj [(''id'', JNum 7)])"
  by (simp add: get_def return_data_def api_request_def response_fulfilled_def Let_def
      dispatchRequest_def settle_def validateStatus_def stub_200_def stub_201_def)

text \<open>
  Claim C9, amended. For every call that receives a response with a status code in 2xx,
  each template returns the decoded body of the response, \<open>response.data\<close>, alone, and
  writes nothing to the error channel.
\<close>

theorem success_returns_data_only:
  assumes "200 \<le> status r" and "status r < 300"
  shows "(adapter (outbound (get e adapter ep ps s)) = Responded r \<longrightarrow>
            fst (get e adapter ep ps s) = Inr (data r)
          \<and> stderr (snd (get e adapter ep ps s)) = stderr s)
       \<and> (adapter (outbound (post e adapter ep d s)) = Responded r \<longrightarrow>
            fst (post e adapter ep d s) = Inr (data r)
          \<and> stderr (snd (post e adapter ep d s)) = stderr s)
       \<and> (adapter (outbound (put e adapter ep d s)) = Responded r \<longrightarrow>
            fst (put e adapter ep d s) = Inr (data r)
          \<and> stderr (snd (put e adapter ep d s)) = stderr s)
       \<and> (adapter (outbound (patch e adapter ep d s)) = Responded r \<longrightarrow>
            fst (patch e adapter ep d s) = Inr (data r)
          \<and> stderr (snd (patch e adapter ep d s)) = stderr s)
       \<and> (adapter (outbound (del e adapter ep s)) = Responded r \<longrightarrow>
            fst (del e adapter ep s) = Inr (data r)
          \<and> stderr (snd (del e adapter ep s)) = stderr s)"
proof -
  have resolves: "adapter c = Responded r \<Longrightarrow> dispatchRequest adapter c = Inr r" for c
    using assms by (rule dispatch_2xx)
  have body_only: "fst (return_data (api_request e adapter c s)) = Inr (data r)
         \<and> stderr (snd (return_data (api_request e adapter c s))) = stderr s"
    if "adapter (outbound (return_data (api_request e adapter c s))) = Responded r" for c
    using fulfilled_template [OF resolves [OF that]] by simp
  show ?thesis
    unfolding templates
    by (intro conjI impI;
        (rule body_only [THEN conjunct1] body_only [THEN conjunct2]), assumption)
qed

text \<open>The amended claim C9 at a response of status 201, for each of the five templates.\<close>

theorem success_returns_data_only_witness:
  "(200::nat) \<le> 201 \<and> (201::nat) < 300
 \<and> stub_201 (outbound (get env_with_key stub_201 ''/users'' None io0))
     = Responded \<lparr> status = 201, data = JObj [(''id'', JNum 7)] \<rparr>
 \<and> stub_201 (outbound (post env_with_key stub_201 ''/users'' None io0))
     = Responded \<lparr> status = 201, data = JObj [(''id'', JNum 7)] \<rparr>
 \<and> stub_201 (outbound (put env_with_key stub_201 ''/users'' None io0))
     = Responded \<lparr> status = 201, data = JObj [(''id'', JNum 7)] \<rparr>
 \<and> stub_201 (outbound (patch env_with_key stub_201 ''/users'' None io0))
     = Responded \<lparr> status = 201, data = JObj [(''id'', JNum 7)] \<rparr>
 \<and> stub_201 (outbound (del env_with_key stub_201 ''/users'' io0))
     = Responded \<lparr> status = 201, data = JObj [(''id'', JNum 7)] \<rparr>
 \<and> fst (post env_with_key stub_201 ''/users'' None io0) = Inr (JObj [(''id'', JNum 7)])
 \<and> stderr (snd (post env_with_key stub_201 ''/users'' None io0)) = []
 \<and> fst (del env_with_key stub_201 ''/users'' io0) = Inr (JObj [(''id'', JNum 7)])"
  using success_returns_data_only [of "\<lparr> status = 201, data = JObj [(''id'', JNum 7)] \<rparr>"
      stub_201 env_with_key "''/users''" None io0 None]
  by (simp add: stubs_dispatch io0_def)

subsection \<open>The Authorization header\<close>

text \<open>
  Claim C6. For \<open>post\<close>, \<open>put\<close> and \<open>patch\<close>: when the configured token is a non-empty
  string \<open>k\<close>, the request handed to the adapter has the header \<open>Authorization\<close> equal to
  \<open>Bearer k\<close>; when the token is unset or empty, that request has no \<open>Authorization\<close>
  header. Each call hands exactly one request to the adapter.
\<close>

theorem bearer_header_body_methods:
  "(API_KEY e = Some k \<and> k \<noteq> [] \<longrightarrow>
      headers (outbound (post e adapter ep d s)) ''Authorization'' = Some (''Bearer '' @ k)
    \<and> headers (outbound (put e adapter ep d s)) ''Authorization'' = Some (''Bearer '' @ k)
    \<and> headers (outbound (patch e adapter ep d s)) ''Authorization'' = Some (''Bearer '' @ k))
 \<and> (API_KEY e = None \<or> API_KEY e = Some [] \<longrightarrow>
      headers (outbound (post e adapter ep d s)) ''Authorization'' = None
    \<and> headers (outbound (put e adapter ep d s)) ''Authorization'' = None
    \<and> headers (outbound (patch e adapter ep d s)) ''Authorization'' = None)
 \<and> sent (snd (post e adapter ep d s)) = sent s @ [outbound (post e adapter ep d s)]
 \<and> sent (snd (put e adapter ep d s)) = sent s @ [outbound (put e adapter ep d s)]
 \<and> sent (snd (patch e adapter ep d s)) = sent s @ [outbound (patch e adapter ep d s)]"
  by (auto simp add: post_def put_def patch_def outbound_template sent_template
      authorization_interceptor api_no_authorization)

text \<open>Claim C6 with a token configured, and with none.\<close>

theorem bearer_header_body_methods_witness:
  "API_KEY env_with_key = Some ''s3cret'' \<and> ''s3cret'' \<noteq> []
 \<and> headers (outbound (post env_with_key stub_200 ''/users'' None io0)) ''Authorization''
     = Some ''Bearer s3cret''
 \<and> headers (outbound (put env_with_key stub_200 ''/users'' None io0)) ''Authorization''
     = Some ''Bearer s3cret''
 \<and> headers (outbound (patch env_with_key stub_200 ''/users'' None io0)) ''Authorization''
     = Some ''Bearer s3cret''
 \<and> API_KEY env_without_key = None
 \<and> headers (outbound (post env_without_key stub_200 ''/users'' None io0)) ''Authorization'' = None
 \<and> headers (outbound (put env_without_key stub_200 ''/users'' None io0)) ''Authorization'' = None
 \<and> headers (outbound (patch env_without_key stub_200 ''/users'' None io0)) ''Authorization'' = None"
  using bearer_header_body_methods [of env_with_key "''s3cret''" stub_200 "''/users''" None io0]
        bearer_header_body_methods [of env_without_key "''s3cret''" stub_200 "''/users''" None io0]
  by (simp add: env_with_key_def env_without_key_def)

text \<open>
  Claim C10. With a non-empty token \<open>k\<close> configured, the request that any of the five
  templates hands to the adapter, \<open>get\<close> and \<open>del\<close> included, has the header
  \<open>Authorization\<close> equal to \<open>Bearer k\<close>: every call passes the one request interceptor.
\<close>

theorem bearer_header_every_method:
  assumes "API_KEY e = Some k" and "k \<noteq> []"
  shows "headers (outbound (get e adapter ep ps s)) ''Authorization'' = Some (''Bearer '' @ k)
       \<and> headers (outbound (post e adapter ep d s)) ''Authorization'' = Some (''Bearer '' @ k)
       \<and> headers (outbound (put e adapter ep d s)) ''Authorization'' = Some (''Bearer '' @ k)
       \<and> headers (outbound (patch e adapter ep d s)) ''Authorization'' = Some (''Bearer '' @ k)
       \<and> headers (outbound (del e adapter ep s)) ''Authorization'' = Some (''Bearer '' @ k)
       \<and> sent (snd (get e adapter ep ps s)) = sent s @ [outbound (get e adapter ep ps s)]
       \<and> sent (snd (post e adapter ep d s)) = sent s @ [outbound (post e adapter ep d s)]
       \<and> sent (snd (put e adapter ep d s)) = sent s @ [outbound (put e adapter ep d s)]
       \<and> sent (snd (patch e adapter ep d s)) = sent s @ [outbound (patch e adapter ep d s)]
       \<and> sent (snd (del e adapter ep s)) = sent s @ [outbound (del e adapter ep s)]"
  using assms
  by (simp add: templates outbound_template sent_template authorization_interceptor
      api_no_authorization)

text \<open>Claim C10 with the token \<open>s3cret\<close>, for \<open>get\<close> and \<open>del\<close>.\<close>

theorem bearer_header_every_method_witness:
  "API_KEY env_with_key = Some ''s3cret'' \<and> ''s3cret'' \<noteq> []
 \<and> headers (outbound (get env_with_key stub_200 ''/users'' None io0)) ''Authorization''
     = Some ''Bearer s3cret''
 \<and> headers (outbound (del env_with_key stub_200 ''/users'' io0)) ''Authorization''
     = Some ''Bearer s3cret''"
  using bearer_header_every_method [of env_with_key "''s3cret''" stub_200 "''/users''" None io0 None]
  by (simp add: env_with_key_def)

section \<open>Properties of the listener controller\<close>

subsection \<open>Auxiliary facts\<close>

lemma start_when_running:
  "server st = Some h \<Longrightarrow>
   handleStartServer e st =
     (Returned, st\<lparr>os := console_log ''Server is already running'' (os st)\<rparr>)"
  by (simp add: handleStartServer_def)

lemma start_when_stopped_busy:
  assumes "server st = None" and "PORT e \<in> set (foreign (os st))"
  shows "listen_cb_on_error (os st) \<Longrightarrow>
           handleStartServer e st =
             (Returned,
              st\<lparr>server := Some (next_handle (os st)),
                 os := console_log (''Server listening on port '' @ decimal (PORT e))
                   ((os st)\<lparr>next_handle := Suc (next_handle (os st)),
                            ops := ops (os st) @ [Listen (next_handle (os st)) (PORT e)]\<rparr>)\<rparr>)"
    and "\<not> listen_cb_on_error (os st) \<Longrightarrow>
           handleStartServer e st =
             (Crashed ''EADDRINUSE'',
              st\<lparr>os := (os st)\<lparr>next_handle := Suc (next_handle (os st)),
                               ops := ops (os st) @ [Listen (next_handle (os st)) (PORT e)]\<rparr>\<rparr>)"
    and "listening (os (snd (handleStartServer e st))) = listening (os st)"
  using assms
  by (simp_all add: handleStartServer_def startServer_def app_listen_def console_log_def Let_def
      split: bool.splits)

lemma owned_start: "owned st \<Longrightarrow> owned (snd (handleStartServer e st))"
  by (auto simp add: owned_def handleStartServer_def startServer_def app_listen_def
      console_log_def Let_def split: option.splits list.splits bool.splits)

lemma owned_stop: "owned st \<Longrightarrow> owned (snd (handleStopServer st))"
  by (auto simp add: owned_def handleStopServer_def stopServer_def server_close_def
      console_log_def split: option.splits list.splits)

lemma owned_cleanup: "owned st \<Longrightarrow> owned (snd (cleanup st))"
  by (auto simp add: owned_def cleanup_def stopServer_def server_close_def console_log_def
      split: option.splits list.splits)

lemma owned_exec: "owned st \<Longrightarrow> owned (snd (exec e c st))"
  by (cases c) (simp_all add: owned_start owned_stop owned_cleanup)

lemma owned_run: "owned st \<Longrightarrow> owned (snd (run e cs st))"
proof (induction cs arbitrary: st)
  case Nil
  then show ?case by simp
next
  case (Cons c cs)
  obtain k st' where step: "exec e c st = (k, st')"
    by (cases "exec e c st")
  with Cons.prems owned_exec [of st e c] have after: "owned st'"
    by simp
  show ?case
  proof (cases k)
    case Returned
    with step Cons.IH [OF after] show ?thesis by simp
  next
    case (Crashed err)
    with step after show ?thesis by simp
  qed
qed

lemma owned_initial: "owned (initial held cb)"
  by (simp add: owned_def initial_def)

lemma owned_length: "owned st \<Longrightarrow> length (listening (os st)) \<le> 1"
  by (simp add: owned_def split: list.splits)

lemmas controller =
  handleStartServer_def handleStopServer_def cleanup_def isServerRunning_def startServer_def
  stopServer_def app_listen_def server_close_def console_log_def Let_def

lemma port_default: "PORT env_with_key = 3000"
  by (simp add: PORT_def env_with_key_def)

lemma decimal_3000: "decimal 3000 = ''3000''"
  by (simp add: decimal.simps)

subsection \<open>Cleanup\<close>

text \<open>
  Claim C3 at a running listener. \<open>cleanup\<close> closes the listener but leaves the variable
  \<open>server\<close> set: afterwards \<open>isServerRunning\<close> still answers yes, and a second
  \<open>cleanup\<close> closes the same handle again and prints \<open>Server stopped\<close> again.
  \<open>handleStopServer\<close> in the same state resets the variable.
\<close>

theorem cleanup_keeps_server_variable:
  "run env_with_key [Start, Cleanup] (initial [] False) =
     (Returned,
      \<lparr> server = Some 0,
        os = \<lparr> listening = [], foreign = [], next_handle = 1,
               ops = [Listen 0 3000, Close 0],
               console = [''Server listening on port 3000'', ''Server stopped''],
               listen_cb_on_error = False \<rparr> \<rparr>)
 \<and> isServerRunning (snd (run env_with_key [Start, Cleanup] (initial [] False)))
 \<and> run env_with_key [Start, Cleanup, Cleanup] (initial [] False) =
     (Returned,
      \<lparr> server = Some 0,
        os = \<lparr> listening = [], foreign = [], next_handle = 1,
               ops = [Listen 0 3000, Close 0, Close 0],
               console = [''Server listening on port 3000'', ''Server stopped'',
                          ''Server stopped''],
               listen_cb_on_error = False \<rparr> \<rparr>)
 \<and> run env_with_key [Start, Stop] (initial [] False) =
     (Returned,
      \<lparr> server = None,
        os = \<lparr> listening = [], foreign = [], next_handle = 1,
               ops = [Listen 0 3000, Close 0],
               console = [''Server listening on port 3000'', ''Server stopped''],
               listen_cb_on_error = False \<rparr> \<rparr>)"
  by (simp add: port_default decimal_3000 initial_def controller)

subsection \<open>A bind that fails\<close>

text \<open>
  Claim C4, as stated, fails. With port 3000 held by another process,
  \<open>handleStartServer\<close> does not return with a reported error. If the framework does not
  run the callback of \<open>app.listen\<close> on the failure, the unhandled event ends the process
  while the handler is pending. If it does run the callback, the handler returns as after
  a successful bind: it prints \<open>Server listening on port 3000\<close> and keeps in \<open>server\<close>
  a server that holds no port, so that the state is not stopped.
\<close>

theorem bind_failure_start_counterexample:
  "handleStartServer env_with_key (initial [3000] False) =
     (Crashed ''EADDRINUSE'',
      \<lparr> server = None,
        os = \<lparr> listening = [], foreign = [3000], next_handle = 1, ops = [Listen 0 3000],
               console = [], listen_cb_on_error = False \<rparr> \<rparr>)
 \<and> handleStartServer env_with_key (initial [3000] True) =
     (Returned,
      \<lparr> server = Some 0,
        os = \<lparr> listening = [], foreign = [3000], next_handle = 1, ops = [Listen 0 3000],
               console = [''Server listening on port 3000''], listen_cb_on_error = True \<rparr> \<rparr>)
 \<and> isServerRunning (snd (handleStartServer env_with_key (initial [3000] True)))"
  by (simp add: port_default decimal_3000 initial_def controller)

text \<open>
  Claim C4, amended. If binding the port fails because another process holds it, a start
  from the stopped state binds no listener and does not return with a reported error; the
  controller does not handle the failure. Where the framework runs the callback of
  \<open>app.listen\<close> on the failure, the start returns as after a successful bind: it has
  printed \<open>Server listening on port\<close> and the port, and \<open>server\<close> holds the new server,
  which is bound to nothing. Where the framework does not run the callback, the start
  does not return: the process is terminated by the uncaught error \<open>EADDRINUSE\<close>, the
  controller has printed nothing, and \<open>server\<close> is still unset.
\<close>

theorem bind_failure_not_reported:
  assumes "server st = None" and "PORT e \<in> set (foreign (os st))"
  shows "(listen_cb_on_error (os st) \<longrightarrow>
            handleStartServer e st =
              (Returned,
               st\<lparr>server := Some (next_handle (os st)),
                  os := console_log (''Server listening on port '' @ decimal (PORT e))
                    ((os st)\<lparr>next_handle := Suc (next_handle (os st)),
                             ops := ops (os st) @ [Listen (next_handle (os st)) (PORT e)]\<rparr>)\<rparr>))
       \<and> (\<not> listen_cb_on_error (os st) \<longrightarrow>
            handleStartServer e st =
              (Crashed ''EADDRINUSE'',
               st\<lparr>os := (os st)\<lparr>next_handle := Suc (next_handle (os st)),
                                ops := ops (os st) @ [Listen (next_handle (os st)) (PORT e)]\<rparr>\<rparr>))
       \<and> listening (os (snd (handleStartServer e st))) = listening (os st)"
  using start_when_stopped_busy [OF assms] by simp

text \<open>
  The amended claim C4 with port 3000 held by another process, for a framework that does
  not run the callback and for one that does.
\<close>

theorem bind_failure_not_reported_witness:
  "server (initial [3000] False) = None
 \<and> PORT env_with_key \<in> set (foreign (os (initial [3000] False)))
 \<and> \<not> listen_cb_on_error (os (initial [3000] False))
 \<and> fst (handleStartServer env_with_key (initial [3000] False)) = Crashed ''EADDRINUSE''
 \<and> server (snd (handleStartServer env_with_key (initial [3000] False))) = None
 \<and> console (os (snd (handleStartServer env_with_key (initial [3000] False)))) = []
 \<and> listening (os (snd (handleStartServer env_with_key (initial [3000] False)))) = []
 \<and> server (initial [3000] True) = None
 \<and> PORT env_with_key \<in> set (foreign (os (initial [3000] True)))
 \<and> listen_cb_on_error (os (initial [3000] True))
 \<and> fst (handleStartServer env_with_key (initial [3000] True)) = Returned
 \<and> server (snd (handleStartServer env_with_key (initial [3000] True))) = Some 0
 \<and> console (os (snd (handleStartServer env_with_key (initial [3000] True))))
      = [''Server listening on port 3000'']
 \<and> listening (os (snd (handleStartServer env_with_key (initial [3000] True)))) = []"
  using bind_failure_not_reported [of "initial [3000] False" env_with_key]
        bind_failure_not_reported [of "initial [3000] True" env_with_key]
  by (simp add: initial_def port_default decimal_3000 console_log_def)

subsection \<open>At most one listener\<close>

text \<open>
  Claim C5. After every sequence of start, stop and cleanup operations from the state at
  process start, at most one listener of the process is bound. With the port free, two
  starts in a row issue one \<open>Listen\<close> and leave one bound listener; and a start in any
  state whose \<open>server\<close> is set returns at once, having only printed
  \<open>Server is already running\<close>.
\<close>

theorem at_most_one_listener:
  "length (listening (os (snd (run e cmds (initial held cb))))) \<le> 1
 \<and> (PORT e \<notin> set held \<longrightarrow>
      run e [Start, Start] (initial held cb) =
        (Returned,
         \<lparr> server = Some 0,
           os = \<lparr> listening = [(0, PORT e)], foreign = held, next_handle = 1,
                  ops = [Listen 0 (PORT e)],
                  console = [''Server listening on port '' @ decimal (PORT e),
                             ''Server is already running''],
                  listen_cb_on_error = cb \<rparr> \<rparr>))
 \<and> (server st \<noteq> None \<longrightarrow>
      handleStartServer e st =
        (Returned, st\<lparr>os := console_log ''Server is already running'' (os st)\<rparr>))"
proof (intro conjI impI)
  show "length (listening (os (snd (run e cmds (initial held cb))))) \<le> 1"
    by (rule owned_length, rule owned_run, rule owned_initial)
next
  assume "PORT e \<notin> set held"
  then show "run e [Start, Start] (initial held cb) =
        (Returned,
         \<lparr> server = Some 0,
           os = \<lparr> listening = [(0, PORT e)], foreign = held, next_handle = 1,
                  ops = [Listen 0 (PORT e)],
                  console = [''Server listening on port '' @ decimal (PORT e),
                             ''Server is already running''],
                  listen_cb_on_error = cb \<rparr> \<rparr>)"
    by (simp add: initial_def controller)
next
  assume "server st \<noteq> None"
  then show "handleStartServer e st =
        (Returned, st\<lparr>os := console_log ''Server is already running'' (os st)\<rparr>)"
    by (auto simp add: start_when_running)
qed

text \<open>Claim C5 on a sequence of five operations, and on two starts with port 3000 free.\<close>

theorem at_most_one_listener_witness:
  "PORT env_with_key \<notin> set []
 \<and> length (listening (os (snd
      (run env_with_key [Start, Cleanup, Start, Stop, Start] (initial [] False))))) \<le> 1
 \<and> listening (os (snd (run env_with_key [Start, Start] (initial [] False)))) = [(0, 3000)]
 \<and> ops (os (snd (run env_with_key [Start, Start] (initial [] False)))) = [Listen 0 3000]
 \<and> console (os (snd (run env_with_key [Start, Start] (initial [] False))))
      = [''Server listening on port 3000'', ''Server is already running'']
 \<and> server (snd (run env_with_key [Start] (initial [] False))) \<noteq> None
 \<and> fst (handleStartServer env_with_key (snd (run env_with_key [Start] (initial [] False))))
      = Returned"
  using at_most_one_listener [of env_with_key "[Start, Cleanup, Start, Stop, Start]" "[]" False
      "snd (run env_with_key [Start] (initial [] False))"]
  by (simp add: port_default decimal_3000 initial_def controller)

subsection \<open>Start, stop, start\<close>

text \<open>
  Claim C7. From a stopped state with nothing bound and the port free, start, stop, start
  returns at each step. The first start binds a new listener; the stop releases it, so
  that nothing is bound before the second start; the second start binds another new
  listener, with a different handle, and this is then the only one bound.
\<close>

theorem restart_binds_fresh_listener:
  assumes "server st = None" and "listening (os st) = []"
    and "PORT e \<notin> set (foreign (os st))"
  shows "fst (run e [Start] st) = Returned
       \<and> server (snd (run e [Start] st)) = Some (next_handle (os st))
       \<and> listening (os (snd (run e [Start] st))) = [(next_handle (os st), PORT e)]
       \<and> fst (run e [Start, Stop] st) = Returned
       \<and> server (snd (run e [Start, Stop] st)) = None
       \<and> listening (os (snd (run e [Start, Stop] st))) = []
       \<and> fst (run e [Start, Stop, Start] st) = Returned
       \<and> server (snd (run e [Start, Stop, Start] st)) = Some (Suc (next_handle (os st)))
       \<and> listening (os (snd (run e [Start, Stop, Start] st)))
           = [(Suc (next_handle (os st)), PORT e)]
       \<and> ops (os (snd (run e [Start, Stop, Start] st)))
           = ops (os st) @ [Listen (next_handle (os st)) (PORT e), Close (next_handle (os st)),
                            Listen (Suc (next_handle (os st))) (PORT e)]"
  using assms by (simp add: controller)

text \<open>Claim C7 at process start with port 3000 free and port 8080 held elsewhere.\<close>

theorem restart_binds_fresh_listener_witness:
  "server (initial [8080] False) = None \<and> listening (os (initial [8080] False)) = []
 \<and> PORT env_with_key \<notin> set (foreign (os (initial [8080] False)))
 \<and> server (snd (run env_with_key [Start] (initial [8080] False))) = Some 0
 \<and> listening (os (snd (run env_with_key [Start, Stop] (initial [8080] False)))) = []
 \<and> fst (run env_with_key [Start, Stop, Start] (initial [8080] False)) = Returned
 \<and> listening (os (snd (run env_with_key [Start, Stop, Start] (initial [8080] False))))
      = [(1, 3000)]
 \<and> ops (os (snd (run env_with_key [Start, Stop, Start] (initial [8080] False))))
      = [Listen 0 3000, Close 0, Listen 1 3000]"
  using restart_binds_fresh_listener [of "initial [8080] False" env_with_key]
  by (simp add: initial_def port_default)

subsection \<open>Stop when stopped\<close>

text \<open>
  Claim C8. When \<open>server\<close> is not set, \<open>handleStopServer\<close> returns at once having
  only printed \<open>Server is not running\<close>: it issues no socket operation, changes no
  listener, and leaves the state stopped.
\<close>

theorem stop_when_stopped_noop:
  assumes "server st = None"
  shows "handleStopServer st =
           (Returned, st\<lparr>os := console_log ''Server is not running'' (os st)\<rparr>)
       \<and> server (snd (handleStopServer st)) = None
       \<and> ops (os (snd (handleStopServer st))) = ops (os st)
       \<and> listening (os (snd (handleStopServer st))) = listening (os st)
       \<and> console (os (snd (handleStopServer st))) = console (os st) @ [''Server is not running'']"
  using assms by (simp add: handleStopServer_def console_log_def)

text \<open>Claim C8 at process start.\<close>

theorem stop_when_stopped_noop_witness:
  "server (initial [] False) = None
 \<and> handleStopServer (initial [] False) =
     (Returned,
      \<lparr> server = None,
        os = \<lparr> listening = [], foreign = [], next_handle = 0, ops = [],
               console = [''Server is not running''], listen_cb_on_error = False \<rparr> \<rparr>)"
  using stop_when_stopped_noop [of "initial [] False"]
  by (simp add: initial_def console_log_def)

end
